theory Spec2Isabelle
  imports Complex_Main
begin

section \<open>Numbers, results and effects\<close>

text \<open>
  The TypeScript type \<^verbatim>\<open>number\<close> is modelled by \<^typ>\<open>real\<close> where the code computes
  with prices, quantities and percentages (exact arithmetic: rounding of IEEE doubles,
  NaN and the infinities are outside the model), and by \<^typ>\<open>int\<close> where the value is a
  database key or the result of \<^verbatim>\<open>parseInt\<close>. A parse that yields NaN is \<open>None\<close>.

  An awaited API call either resolves with a value or rejects; the rejection carries
  what the handlers read from it, \<^verbatim>\<open>error.response?.data?.detail\<close>, which may be absent.
\<close>

datatype 'a api_result = Resolved 'a | Rejected "string option"

text \<open>
  \<^verbatim>\<open>detail || fallback\<close>: an absent and an empty detail are both falsy.
\<close>

definition detail_or :: "string option \<Rightarrow> string \<Rightarrow> string" where
  "detail_or detail fallback =
     (case detail of None \<Rightarrow> fallback | Some d \<Rightarrow> if d = [] then fallback else d)"

section \<open>Point of sale: data\<close>

text \<open>
  \<^verbatim>\<open>Medicine\<close> of \<^verbatim>\<open>types/index.ts\<close>, with the fields the point of sale reads. Its
  \<^verbatim>\<open>medicine_id\<close> is the printed code, a string; the numeric key is \<^verbatim>\<open>id\<close>.
\<close>

record Medicine =
  m_id :: int
  m_name :: string
  m_medicine_id :: string
  m_unit_price :: real
  m_stock_quantity :: real

text \<open>\<^verbatim>\<open>interface CartItem extends SaleItem\<close> of \<^verbatim>\<open>pos/page.tsx\<close>.\<close>

record CartItem =
  medicine_id :: int
  quantity :: real
  discount_percent :: real
  medicine :: Medicine
  unit_price :: real
  total_price :: real

text \<open>
  \<^verbatim>\<open>Partial<CartItem>\<close>: every field may be absent (\<open>None\<close>).
\<close>

record CartItemUpdates =
  u_medicine_id :: "int option"
  u_quantity :: "real option"
  u_discount_percent :: "real option"
  u_medicine :: "Medicine option"
  u_unit_price :: "real option"
  u_total_price :: "real option"

definition no_updates :: CartItemUpdates where
  "no_updates = \<lparr> u_medicine_id = None, u_quantity = None, u_discount_percent = None,
                  u_medicine = None, u_unit_price = None, u_total_price = None \<rparr>"

text \<open>The object spread \<^verbatim>\<open>{ ...item, ...updates }\<close>: a field of the updates wins.\<close>

definition spread :: "CartItem \<Rightarrow> CartItemUpdates \<Rightarrow> CartItem" where
  "spread item updates =
     \<lparr> medicine_id = (case u_medicine_id updates of None \<Rightarrow> medicine_id item | Some v \<Rightarrow> v),
       quantity = (case u_quantity updates of None \<Rightarrow> quantity item | Some v \<Rightarrow> v),
       discount_percent =
         (case u_discount_percent updates of None \<Rightarrow> discount_percent item | Some v \<Rightarrow> v),
       medicine = (case u_medicine updates of None \<Rightarrow> medicine item | Some v \<Rightarrow> v),
       unit_price = (case u_unit_price updates of None \<Rightarrow> unit_price item | Some v \<Rightarrow> v),
       total_price = (case u_total_price updates of None \<Rightarrow> total_price item | Some v \<Rightarrow> v) \<rparr>"

text \<open>
  The state cells of \<^verbatim>\<open>POSPage\<close> that its handlers read or write. The customer is
  selected by \<^verbatim>\<open>setCustomerId(customer.id.toString())\<close> and cleared to the empty string.
\<close>

record POSState =
  searchQuery :: string
  searchResults :: "Medicine list"
  cart :: "CartItem list"
  customerId :: string
  customerSearch :: string
  paymentMethod :: string
  discount :: real
  processing :: bool
  success :: bool
  receiptNumber :: string

definition POS_initial :: POSState where
  "POS_initial = \<lparr> searchQuery = [], searchResults = [], cart = [], customerId = [],
                   customerSearch = [], paymentMethod = ''cash'', discount = 0,
                   processing = False, success = False, receiptNumber = [] \<rparr>"

section \<open>Point of sale: totals\<close>

definition TAX_PERCENTAGE :: real where
  "TAX_PERCENTAGE = 18"

definition tax :: real where
  "tax = TAX_PERCENTAGE"

text \<open>\<^verbatim>\<open>cart.reduce((sum, item) => sum + item.total_price, 0)\<close> is a left fold.\<close>

definition subtotal :: "POSState \<Rightarrow> real" where
  "subtotal s = foldl (\<lambda>sum item. sum + total_price item) 0 (cart s)"

definition discountAmount :: "POSState \<Rightarrow> real" where
  "discountAmount s = (subtotal s * discount s) / 100"

definition taxAmount :: "POSState \<Rightarrow> real" where
  "taxAmount s = (subtotal s * tax) / 100"

definition grandTotal :: "POSState \<Rightarrow> real" where
  "grandTotal s = subtotal s - discountAmount s + taxAmount s"

section \<open>Point of sale: cart handlers\<close>

definition newItem :: "Medicine \<Rightarrow> CartItem" where
  "newItem med = \<lparr> medicine_id = m_id med, quantity = 1, discount_percent = 0,
                    medicine = med, unit_price = m_unit_price med,
                    total_price = m_unit_price med \<rparr>"

definition bump_line :: "CartItem \<Rightarrow> CartItem" where
  "bump_line item =
     item\<lparr> quantity := quantity item + 1,
           total_price :=
             (quantity item + 1) * unit_price item * (1 - discount_percent item / 100) \<rparr>"

definition addToCart :: "Medicine \<Rightarrow> POSState \<Rightarrow> POSState" where
  "addToCart med s =
     (let existingItem = find (\<lambda>item. medicine_id item = m_id med) (cart s);
          s' = (case existingItem of
                  Some _ \<Rightarrow>
                    s\<lparr> cart := map (\<lambda>item. if medicine_id item = m_id med
                                           then bump_line item else item) (cart s) \<rparr>
                | None \<Rightarrow> s\<lparr> cart := cart s @ [newItem med] \<rparr>)
      in s'\<lparr> searchQuery := [], searchResults := [] \<rparr>)"

definition update_line :: "CartItemUpdates \<Rightarrow> CartItem \<Rightarrow> CartItem" where
  "update_line updates item =
     (let updated = spread item updates
      in if u_quantity updates \<noteq> None \<or> u_discount_percent updates \<noteq> None
         then updated\<lparr> total_price :=
                quantity updated * unit_price updated * (1 - discount_percent updated / 100) \<rparr>
         else updated)"

definition updateCartItem :: "int \<Rightarrow> CartItemUpdates \<Rightarrow> POSState \<Rightarrow> POSState" where
  "updateCartItem medicineId updates s =
     s\<lparr> cart := map (\<lambda>item. if medicine_id item = medicineId
                            then update_line updates item else item) (cart s) \<rparr>"

definition removeFromCart :: "int \<Rightarrow> POSState \<Rightarrow> POSState" where
  "removeFromCart medicineId s =
     s\<lparr> cart := filter (\<lambda>item. medicine_id item \<noteq> medicineId) (cart s) \<rparr>"

definition clearCart :: "POSState \<Rightarrow> POSState" where
  "clearCart s =
     s\<lparr> cart := [], discount := 0, customerId := [], customerSearch := [],
        paymentMethod := ''cash'', success := False \<rparr>"

text \<open>
  The discount field: \<^verbatim>\<open>setDiscount(parseFloat(e.target.value) || 0)\<close>. The argument is
  the result of \<^verbatim>\<open>parseFloat\<close>; NaN and 0 both give 0.
\<close>

definition discount_onChange :: "real option \<Rightarrow> POSState \<Rightarrow> POSState" where
  "discount_onChange parsed s =
     s\<lparr> discount := (case parsed of None \<Rightarrow> 0 | Some d \<Rightarrow> d) \<rparr>"

text \<open>
  The two quantity buttons of a cart line, the only callers of \<^verbatim>\<open>updateCartItem\<close>:
  \<^verbatim>\<open>{ quantity: Math.max(1, item.quantity - 1) }\<close> and \<^verbatim>\<open>{ quantity: item.quantity + 1 }\<close>.
\<close>

definition minus_onClick :: "CartItem \<Rightarrow> POSState \<Rightarrow> POSState" where
  "minus_onClick item s =
     updateCartItem (medicine_id item)
       (no_updates\<lparr> u_quantity := Some (max 1 (quantity item - 1)) \<rparr>) s"

definition plus_onClick :: "CartItem \<Rightarrow> POSState \<Rightarrow> POSState" where
  "plus_onClick item s =
     updateCartItem (medicine_id item)
       (no_updates\<lparr> u_quantity := Some (quantity item + 1) \<rparr>) s"

text \<open>Sequences of cart operations, applied from left to right.\<close>

datatype cart_op =
    AddToCart Medicine
  | UpdateCartItem int CartItemUpdates
  | RemoveFromCart int
  | ClearCart
  | SetDiscount "real option"

fun apply_op :: "cart_op \<Rightarrow> POSState \<Rightarrow> POSState" where
  "apply_op (AddToCart med) s = addToCart med s"
| "apply_op (UpdateCartItem medicineId updates) s = updateCartItem medicineId updates s"
| "apply_op (RemoveFromCart medicineId) s = removeFromCart medicineId s"
| "apply_op ClearCart s = clearCart s"
| "apply_op (SetDiscount parsed) s = discount_onChange parsed s"

fun run_ops :: "cart_op list \<Rightarrow> POSState \<Rightarrow> POSState" where
  "run_ops [] s = s"
| "run_ops (op # ops) s = run_ops ops (apply_op op s)"

section \<open>Point of sale: submitting the sale\<close>

record SaleLine =
  line_medicine_id :: int
  line_quantity :: real
  line_discount_percent :: real

record SaleData =
  customer_id :: "int option"
  sale_items :: "SaleLine list"
  discount_amount :: real
  tax_amount :: real
  payment_method :: string
  sale_notes :: string

section \<open>Purchase orders: data\<close>

datatype OrderStatus = Pending | Ordered | Received | Cancelled | Partial

fun status_name :: "OrderStatus \<Rightarrow> string" where
  "status_name Pending = ''pending''"
| "status_name Ordered = ''ordered''"
| "status_name Received = ''received''"
| "status_name Cancelled = ''cancelled''"
| "status_name Partial = ''partial''"

record PurchaseItem =
  item_id :: int
  item_medicine_id :: int
  item_quantity :: int
  item_unit_cost :: real
  received_quantity :: "int option"

record Purchase =
  purchase_id :: int
  purchase_number :: string
  supplier_id :: int
  status :: OrderStatus
  total_amount :: real
  items :: "PurchaseItem list"

text \<open>
  What a handler does to the world outside the component state, in the order it does it:
  dialogs, console output, the requests of \<^verbatim>\<open>lib/api.ts\<close> and the timer of
  \<^verbatim>\<open>processSale\<close>. The body of \<^verbatim>\<open>PUT /purchases/{id}/receive\<close> is
  \<^verbatim>\<open>{ received_quantities }\<close> and nothing else; that of
  \<^verbatim>\<open>PUT /purchases/{id}/status\<close> is \<^verbatim>\<open>{ status }\<close>.
\<close>

datatype effect =
    Alert string
  | Confirm string
  | Console_error string
  | Post_process_sale SaleData
  | Put_receive int "int \<rightharpoonup> int"
  | Put_status int OrderStatus
  | Get_purchases "OrderStatus option" "int option"
  | Set_timeout_clearCart nat

fun is_request :: "effect \<Rightarrow> bool" where
  "is_request (Post_process_sale _) = True"
| "is_request (Put_receive _ _) = True"
| "is_request (Put_status _ _) = True"
| "is_request (Get_purchases _ _) = True"
| "is_request _ = False"

fun is_alert :: "effect \<Rightarrow> bool" where
  "is_alert (Alert _) = True"
| "is_alert _ = False"

section \<open>Point of sale: processSale\<close>

text \<open>
  The payload built by \<^verbatim>\<open>processSale\<close>. \<^verbatim>\<open>parseInt\<close> is the JavaScript built-in, taken
  as a parameter; a customer id that is empty or does not parse is sent as null.
\<close>

definition saleData :: "(string \<Rightarrow> int option) \<Rightarrow> POSState \<Rightarrow> SaleData" where
  "saleData parseInt s =
     \<lparr> customer_id = (if customerId s \<noteq> [] then parseInt (customerId s) else None),
       sale_items = map (\<lambda>item. \<lparr> line_medicine_id = medicine_id item,
                                   line_quantity = quantity item,
                                   line_discount_percent = discount_percent item \<rparr>) (cart s),
       discount_amount = discountAmount s,
       tax_amount = taxAmount s,
       payment_method = paymentMethod s,
       sale_notes = [] \<rparr>"

text \<open>
  \<^verbatim>\<open>processSale\<close> up to its \<^verbatim>\<open>await\<close>: the empty-cart check, \<^verbatim>\<open>setProcessing(true)\<close>
  and the request. It does not read \<^verbatim>\<open>processing\<close>.
\<close>

definition processSale_call ::
  "(string \<Rightarrow> int option) \<Rightarrow> POSState \<Rightarrow> POSState \<times> effect list" where
  "processSale_call parseInt s =
     (if length (cart s) = 0 then (s, [Alert ''Cart is empty!''])
      else (s\<lparr> processing := True \<rparr>, [Post_process_sale (saleData parseInt s)]))"

text \<open>
  \<^verbatim>\<open>processSale\<close> after the \<^verbatim>\<open>await\<close>: the response carries the receipt number; the
  \<^verbatim>\<open>catch\<close> branch alerts; \<^verbatim>\<open>finally\<close> resets \<^verbatim>\<open>processing\<close>.
\<close>

definition processSale_settle :: "string api_result \<Rightarrow> POSState \<Rightarrow> POSState \<times> effect list" where
  "processSale_settle r s =
     (case r of
        Resolved receipt_number \<Rightarrow>
          (s\<lparr> receiptNumber := receipt_number, success := True, processing := False \<rparr>,
           [Set_timeout_clearCart 5000])
      | Rejected detail \<Rightarrow>
          (s\<lparr> processing := False \<rparr>, [Alert (detail_or detail ''Sale processing failed'')]))"

text \<open>The button \<^verbatim>\<open>Complete Sale\<close>: \<^verbatim>\<open>disabled={processing || cart.length === 0}\<close>.\<close>

definition complete_sale_disabled :: "POSState \<Rightarrow> bool" where
  "complete_sale_disabled s = (processing s \<or> length (cart s) = 0)"

text \<open>
  The page as an event system. Handlers run to completion one after the other, each on
  the state the previous one left; a disabled button delivers no click. Besides the
  component state a session records the sale requests that were sent and have not
  settled yet, and the number of pending \<^verbatim>\<open>clearCart\<close> timers.
\<close>

record Session =
  ui :: POSState
  in_flight :: "SaleData list"
  timers :: nat

definition Session_initial :: Session where
  "Session_initial = \<lparr> ui = POS_initial, in_flight = [], timers = 0 \<rparr>"

datatype ui_event =
    Click_complete_sale
  | Sale_settles "string api_result"
  | Cart_event cart_op
  | Timer_fires

fun posted :: "effect list \<Rightarrow> SaleData list" where
  "posted [] = []"
| "posted (Post_process_sale d # es) = d # posted es"
| "posted (_ # es) = posted es"

fun timeouts :: "effect list \<Rightarrow> nat" where
  "timeouts [] = 0"
| "timeouts (Set_timeout_clearCart _ # es) = Suc (timeouts es)"
| "timeouts (_ # es) = timeouts es"

fun step :: "(string \<Rightarrow> int option) \<Rightarrow> ui_event \<Rightarrow> Session \<Rightarrow> Session option" where
  "step parseInt Click_complete_sale \<sigma> =
     (if complete_sale_disabled (ui \<sigma>) then None
      else (case processSale_call parseInt (ui \<sigma>) of
              (s', es) \<Rightarrow> Some (\<sigma>\<lparr> ui := s', in_flight := in_flight \<sigma> @ posted es \<rparr>)))"
| "step parseInt (Sale_settles r) \<sigma> =
     (case in_flight \<sigma> of
        [] \<Rightarrow> None
      | _ # rest \<Rightarrow>
          (case processSale_settle r (ui \<sigma>) of
             (s', es) \<Rightarrow>
               Some (\<sigma>\<lparr> ui := s', in_flight := rest, timers := timers \<sigma> + timeouts es \<rparr>)))"
| "step parseInt (Cart_event op) \<sigma> = Some (\<sigma>\<lparr> ui := apply_op op (ui \<sigma>) \<rparr>)"
| "step parseInt Timer_fires \<sigma> =
     (if timers \<sigma> = 0 then None
      else Some (\<sigma>\<lparr> ui := clearCart (ui \<sigma>), timers := timers \<sigma> - 1 \<rparr>))"

fun run_events ::
  "(string \<Rightarrow> int option) \<Rightarrow> ui_event list \<Rightarrow> Session \<Rightarrow> Session option" where
  "run_events parseInt [] \<sigma> = Some \<sigma>"
| "run_events parseInt (e # es) \<sigma> =
     (case step parseInt e \<sigma> of None \<Rightarrow> None | Some \<sigma>' \<Rightarrow> run_events parseInt es \<sigma>')"

section \<open>Purchase orders: handlers\<close>

text \<open>
  The state cells of \<^verbatim>\<open>PurchasesPage\<close> that the receive and status handlers read or
  write. The keys of \<^verbatim>\<open>receiveQuantities\<close> are \<^verbatim>\<open>item.id.toString()\<close>; the map is keyed
  by the item id itself. A filter set to \<^verbatim>\<open>'all'\<close> is \<open>None\<close>.
\<close>

record PurchasesState =
  purchases :: "Purchase list"
  loading :: bool
  statusFilter :: "OrderStatus option"
  supplierFilter :: "int option"
  showReceiveModal :: bool
  showDetailModal :: bool
  selectedPurchase :: "Purchase option"
  receiveQuantities :: "int \<rightharpoonup> int"

text \<open>
  \<^verbatim>\<open>fetchPurchases\<close> up to its \<^verbatim>\<open>await\<close>, and after it. Its callers do not await it.
  The list is replaced by \<^verbatim>\<open>response.data || []\<close>; a response without data is \<open>None\<close>.
\<close>

definition fetchPurchases_call :: "PurchasesState \<Rightarrow> PurchasesState \<times> effect list" where
  "fetchPurchases_call s =
     (s\<lparr> loading := True \<rparr>, [Get_purchases (statusFilter s) (supplierFilter s)])"


definition prepareReceivePurchase :: "Purchase \<Rightarrow> PurchasesState \<Rightarrow> PurchasesState" where
  "prepareReceivePurchase purchase s =
     s\<lparr> selectedPurchase := Some purchase,
        receiveQuantities :=
          foldl (\<lambda>quantities item. quantities(item_id item \<mapsto> item_quantity item))
            Map.empty (items purchase),
        showReceiveModal := True \<rparr>"

text \<open>
  The quantity field of the receive dialog is declared with \<^verbatim>\<open>min="0"\<close> and
  \<^verbatim>\<open>max={item.quantity}\<close>. A map of received quantities respects the declared bounds
  of an order when every item of the order has an entry within them.
\<close>

definition received_min :: int where
  "received_min = 0"

definition received_max :: "PurchaseItem \<Rightarrow> int" where
  "received_max item = item_quantity item"

definition within_declared_bounds :: "Purchase \<Rightarrow> (int \<rightharpoonup> int) \<Rightarrow> bool" where
  "within_declared_bounds purchase quantities =
     list_all (\<lambda>item. case quantities (item_id item) of
                        None \<Rightarrow> False
                      | Some q \<Rightarrow> received_min \<le> q \<and> q \<le> received_max item)
       (items purchase)"

text \<open>
  The change handler of the field stores \<^verbatim>\<open>parseInt(e.target.value) || 0\<close>. The argument
  is the result of \<^verbatim>\<open>parseInt\<close>.
\<close>

definition received_onChange :: "PurchaseItem \<Rightarrow> int option \<Rightarrow> PurchasesState \<Rightarrow> PurchasesState" where
  "received_onChange item parsed s =
     s\<lparr> receiveQuantities :=
          (receiveQuantities s)(item_id item \<mapsto> (case parsed of None \<Rightarrow> 0 | Some n \<Rightarrow> n)) \<rparr>"

text \<open>
  \<^verbatim>\<open>handleReceivePurchase\<close>, given how the awaited request settles.
\<close>

definition handleReceivePurchase ::
  "unit api_result \<Rightarrow> PurchasesState \<Rightarrow> PurchasesState \<times> effect list" where
  "handleReceivePurchase r s =
     (case selectedPurchase s of
        None \<Rightarrow> (s, [])
      | Some selected \<Rightarrow>
          (case r of
             Resolved _ \<Rightarrow>
               (case fetchPurchases_call (s\<lparr> showReceiveModal := False \<rparr>) of
                  (s', es) \<Rightarrow>
                    (s', Put_receive (purchase_id selected) (receiveQuantities s) # es
                           @ [Alert ''Purchase order received successfully!'']))
           | Rejected detail \<Rightarrow>
               (s, [Put_receive (purchase_id selected) (receiveQuantities s),
                    Alert (detail_or detail ''Failed to receive purchase order'')])))"

text \<open>
  \<^verbatim>\<open>handleUpdateStatus\<close>, given the answer to its \<^verbatim>\<open>confirm\<close> dialog and how the
  awaited request settles.
\<close>

definition confirm_message :: "OrderStatus \<Rightarrow> string" where
  "confirm_message new_status =
     ''Are you sure you want to mark this order as '' @ status_name new_status @ ''?''"

definition handleUpdateStatus ::
  "bool \<Rightarrow> unit api_result \<Rightarrow> int \<Rightarrow> OrderStatus \<Rightarrow> PurchasesState
     \<Rightarrow> PurchasesState \<times> effect list" where
  "handleUpdateStatus confirmed r purchaseId new_status s =
     (if \<not> confirmed then (s, [Confirm (confirm_message new_status)])
      else (case r of
              Resolved _ \<Rightarrow>
                (case fetchPurchases_call s of
                   (s', es) \<Rightarrow>
                     (s', Confirm (confirm_message new_status)
                            # Put_status purchaseId new_status # es
                            @ [Alert ''Purchase status updated successfully!'']))
            | Rejected detail \<Rightarrow>
                (s, [Confirm (confirm_message new_status),
                     Put_status purchaseId new_status,
                     Alert (detail_or detail ''Failed to update purchase status'')])))"

text \<open>
  The action buttons the page renders for an order: in its table row, and in the detail
  dialog. \<^verbatim>\<open>Cancel_order\<close> is the only caller of \<^verbatim>\<open>handleUpdateStatus\<close>, with the
  target status \<^verbatim>\<open>'cancelled'\<close>.
\<close>

datatype order_action = View_details | Receive_order | Cancel_order | Print_order | Close_dialog

definition row_actions :: "Purchase \<Rightarrow> order_action list" where
  "row_actions purchase =
     View_details #
       (if status purchase = Pending \<or> status purchase = Ordered
        then [Receive_order, Cancel_order] else [])"

definition detail_actions :: "Purchase \<Rightarrow> order_action list" where
  "detail_actions purchase =
     (if status purchase = Pending \<or> status purchase = Ordered then [Receive_order] else [])
     @ (if status purchase = Pending then [Cancel_order] else [])
     @ [Print_order, Close_dialog]"

section \<open>Predicates used in the statements\<close>


text \<open>The flag \<^verbatim>\<open>processing\<close> is set exactly while one sale request is unsettled.\<close>

definition one_flight :: "Session \<Rightarrow> bool" where
  "one_flight \<sigma> = (length (in_flight \<sigma>) = (if processing (ui \<sigma>) then 1 else 0))"

section \<open>Example data\<close>

definition med_a :: Medicine where
  "med_a = \<lparr> m_id = 1, m_name = ''Panadol'', m_medicine_id = ''MED-001'',
              m_unit_price = 100, m_stock_quantity = 20 \<rparr>"

definition med_b :: Medicine where
  "med_b = \<lparr> m_id = 2, m_name = ''Brufen'', m_medicine_id = ''MED-002'',
              m_unit_price = 50, m_stock_quantity = 8 \<rparr>"

text \<open>
  Scenario A of the specification: three units at 100, one unit at 50 with a line
  discount of 10 percent, and a cart discount of 5 percent.
\<close>

definition scenario_A :: "cart_op list" where
  "scenario_A =
     [AddToCart med_a, AddToCart med_a, AddToCart med_a, AddToCart med_b,
      UpdateCartItem 2 (no_updates\<lparr> u_discount_percent := Some 10 \<rparr>), SetDiscount (Some 5)]"



definition one_line :: POSState where
  "one_line = addToCart med_a POS_initial"

definition two_lines :: POSState where
  "two_lines = addToCart med_b (addToCart med_a POS_initial)"

text \<open>A cart with one line while a sale request is unsettled.\<close>

definition busy_cart :: POSState where
  "busy_cart = one_line\<lparr> processing := True \<rparr>"

text \<open>No customer is selected in the examples, so \<^verbatim>\<open>parseInt\<close> is never applied.\<close>

definition parseInt_unused :: "string \<Rightarrow> int option" where
  "parseInt_unused = map_of []"

definition add_and_click :: "ui_event list" where
  "add_and_click = [Cart_event (AddToCart med_a), Click_complete_sale]"

text \<open>Scenario B of the specification: an order of 10 and 5 units.\<close>

definition order_items :: "PurchaseItem list" where
  "order_items =
     [\<lparr> item_id = 1, item_medicine_id = 11, item_quantity = 10, item_unit_cost = 2,
         received_quantity = None \<rparr>,
      \<lparr> item_id = 2, item_medicine_id = 12, item_quantity = 5, item_unit_cost = 4,
         received_quantity = None \<rparr>]"

definition order_7 :: Purchase where
  "order_7 = \<lparr> purchase_id = 7, purchase_number = ''PO-7'', supplier_id = 3, status = Ordered,
               total_amount = 40, items = order_items \<rparr>"

definition order_8 :: Purchase where
  "order_8 = \<lparr> purchase_id = 8, purchase_number = ''PO-8'', supplier_id = 3, status = Received,
               total_amount = 40, items = order_items \<rparr>"

definition purchases_page :: PurchasesState where
  "purchases_page =
     \<lparr> purchases = [order_7, order_8], loading = False, statusFilter = None,
       supplierFilter = None, showReceiveModal = False, showDetailModal = False,
       selectedPurchase = None, receiveQuantities = map_of [] \<rparr>"

text \<open>
  The receive dialog of \<open>order_7\<close> after the user has typed \<open>q1\<close> and \<open>q2\<close> into
  its two quantity fields.
\<close>

definition receive_dialog :: "int \<Rightarrow> int \<Rightarrow> PurchasesState" where
  "receive_dialog q1 q2 =
     received_onChange (order_items ! 1) (Some q2)
       (received_onChange (order_items ! 0) (Some q1)
          (prepareReceivePurchase order_7 purchases_page))"

section \<open>Facts about the cart handlers\<close>

lemma foldl_add_sum_list:
  "foldl (\<lambda>sum item. sum + f item) a xs = (a::real) + sum_list (map f xs)"
  by (induction xs arbitrary: a) simp_all

lemma totals_derived:
  "subtotal s = sum_list (map total_price (cart s)) \<and>
   discountAmount s = subtotal s * discount s / 100 \<and>
   taxAmount s = subtotal s * 18 / 100 \<and>
   grandTotal s = subtotal s - discountAmount s + taxAmount s"
  by (simp add: subtotal_def discountAmount_def taxAmount_def grandTotal_def tax_def
        TAX_PERCENTAGE_def foldl_add_sum_list)

lemma cart_updateCartItem:
  "cart (updateCartItem i u s) =
     map (\<lambda>item. if medicine_id item = i then update_line u item else item) (cart s)"
  by (simp add: updateCartItem_def)


lemma cart_addToCart_found:
  assumes "\<exists>item\<in>set (cart s). medicine_id item = m_id med"
  shows "cart (addToCart med s) =
           map (\<lambda>item. if medicine_id item = m_id med then bump_line item else item) (cart s)"
proof -
  from assms have "find (\<lambda>item. medicine_id item = m_id med) (cart s) \<noteq> None"
    by (auto simp: find_None_iff)
  then show ?thesis
    by (auto simp: addToCart_def Let_def)
qed

lemma cart_addToCart_new:
  assumes "\<forall>item\<in>set (cart s). medicine_id item \<noteq> m_id med"
  shows "cart (addToCart med s) = cart s @ [newItem med]"
proof -
  from assms have "find (\<lambda>item. medicine_id item = m_id med) (cart s) = None"
    by (simp add: find_None_iff)
  then show ?thesis
    by (simp add: addToCart_def Let_def)
qed

lemma cart_one_line: "cart one_line = [newItem med_a]"
  by (simp add: one_line_def cart_addToCart_new POS_initial_def)

lemma cart_two_lines: "cart two_lines = [newItem med_a, newItem med_b]"
proof -
  have "cart (addToCart med_a POS_initial) = [newItem med_a]"
    by (simp add: cart_addToCart_new POS_initial_def)
  then show ?thesis
    by (simp add: two_lines_def cart_addToCart_new newItem_def med_a_def med_b_def)
qed







lemmas cart_eval =
  POS_initial_def addToCart_def updateCartItem_def update_line_def spread_def
  removeFromCart_def clearCart_def discount_onChange_def newItem_def bump_line_def
  no_updates_def med_a_def med_b_def Let_def

section \<open>The cart totals\<close>

text \<open>
  Claim C1. In every state reached from the initial state of the page by a sequence of
  \<^verbatim>\<open>addToCart\<close>, \<^verbatim>\<open>updateCartItem\<close>, \<^verbatim>\<open>removeFromCart\<close>, \<^verbatim>\<open>clearCart\<close> and changes of
  the cart discount, the subtotal is the sum of the lines' \<^verbatim>\<open>total_price\<close>, the discount
  amount is subtotal times discount over 100, the tax amount is subtotal times 18 over
  100, and the grand total is subtotal minus discount amount plus tax amount. The four
  totals are recomputed from the state, so no operation can leave them stale.
\<close>

theorem cart_totals_invariant:
  "s = run_ops ops POS_initial \<Longrightarrow>
     subtotal s = sum_list (map total_price (cart s)) \<and>
     discountAmount s = subtotal s * discount s / 100 \<and>
     taxAmount s = subtotal s * 18 / 100 \<and>
     grandTotal s = subtotal s - discountAmount s + taxAmount s"
  by (rule totals_derived)

text \<open>
  Claim C1 at Scenario A: subtotal 345, discount amount 17.25, tax amount 62.10 and
  grand total 389.85.
\<close>

theorem cart_totals_invariant_witness:
  "subtotal (run_ops scenario_A POS_initial) = 345 \<and>
   discountAmount (run_ops scenario_A POS_initial) = 17.25 \<and>
   taxAmount (run_ops scenario_A POS_initial) = 62.1 \<and>
   grandTotal (run_ops scenario_A POS_initial) = 389.85"
  using cart_totals_invariant [of "run_ops scenario_A POS_initial" scenario_A]
  by (simp add: scenario_A_def cart_eval)

section \<open>Adding a medicine that is already in the cart\<close>

text \<open>
  Claim C6. If the cart has a line for the medicine, \<^verbatim>\<open>addToCart\<close> keeps the number of
  lines, raises the quantity of each such line by 1, sets its \<^verbatim>\<open>total_price\<close> to the new
  quantity times the unit price times (1 - discount_percent / 100), and leaves every
  other line and every other field as it was. Adding a medicine twice to a cart that
  has no line for it appends exactly one line, of quantity 2.
\<close>

theorem addToCart_existing:
  "((\<exists>item\<in>set (cart s). medicine_id item = m_id med) \<longrightarrow>
      length (cart (addToCart med s)) = length (cart s) \<and>
      (\<forall>k<length (cart s).
         cart (addToCart med s) ! k =
           (if medicine_id (cart s ! k) = m_id med
            then (cart s ! k)\<lparr> quantity := quantity (cart s ! k) + 1,
                   total_price := (quantity (cart s ! k) + 1) * unit_price (cart s ! k)
                                    * (1 - discount_percent (cart s ! k) / 100) \<rparr>
            else cart s ! k))) \<and>
   ((\<forall>item\<in>set (cart s). medicine_id item \<noteq> m_id med) \<longrightarrow>
      cart (addToCart med (addToCart med s)) =
        cart s @ [\<lparr> medicine_id = m_id med, quantity = 2, discount_percent = 0, medicine = med,
                    unit_price = m_unit_price med,
                    total_price = 2 * m_unit_price med * (1 - 0 / 100) \<rparr>])"
proof (intro conjI impI)
  assume ex: "\<exists>item\<in>set (cart s). medicine_id item = m_id med"
  show "length (cart (addToCart med s)) = length (cart s)"
    by (simp add: cart_addToCart_found [OF ex])
  show "\<forall>k<length (cart s).
         cart (addToCart med s) ! k =
           (if medicine_id (cart s ! k) = m_id med
            then (cart s ! k)\<lparr> quantity := quantity (cart s ! k) + 1,
                   total_price := (quantity (cart s ! k) + 1) * unit_price (cart s ! k)
                                    * (1 - discount_percent (cart s ! k) / 100) \<rparr>
            else cart s ! k)"
    by (simp add: cart_addToCart_found [OF ex] bump_line_def)
next
  assume new: "\<forall>item\<in>set (cart s). medicine_id item \<noteq> m_id med"
  have first: "cart (addToCart med s) = cart s @ [newItem med]"
    by (rule cart_addToCart_new [OF new])
  have "\<exists>item\<in>set (cart (addToCart med s)). medicine_id item = m_id med"
    by (simp add: first newItem_def)
  then have "cart (addToCart med (addToCart med s)) =
      map (\<lambda>item. if medicine_id item = m_id med then bump_line item else item)
        (cart s @ [newItem med])"
    by (simp add: cart_addToCart_found first)
  also have "\<dots> =
      map (\<lambda>item. if medicine_id item = m_id med then bump_line item else item) (cart s)
        @ [bump_line (newItem med)]"
    by (simp add: newItem_def)
  also have "map (\<lambda>item. if medicine_id item = m_id med then bump_line item else item) (cart s)
      = cart s"
    using new by (simp add: map_idI)
  finally show "cart (addToCart med (addToCart med s)) =
        cart s @ [\<lparr> medicine_id = m_id med, quantity = 2, discount_percent = 0, medicine = med,
                    unit_price = m_unit_price med,
                    total_price = 2 * m_unit_price med * (1 - 0 / 100) \<rparr>]"
    by (simp add: newItem_def bump_line_def)
qed

text \<open>
  Claim C6 on the empty cart: the first call appends the line, the second one finds it;
  the cart then holds one line of quantity 2 and total 200.
\<close>

theorem addToCart_existing_witness:
  "cart (addToCart med_a one_line) =
     [\<lparr> medicine_id = 1, quantity = 2, discount_percent = 0, medicine = med_a,
        unit_price = 100, total_price = 200 \<rparr>] \<and>
   cart (addToCart med_a (addToCart med_a POS_initial)) =
     [\<lparr> medicine_id = 1, quantity = 2, discount_percent = 0, medicine = med_a,
        unit_price = 100, total_price = 200 \<rparr>]"
  using addToCart_existing [of one_line med_a] addToCart_existing [of POS_initial med_a]
  by (simp add: one_line_def POS_initial_def addToCart_def newItem_def bump_line_def med_a_def)

section \<open>Removing a line\<close>

text \<open>
  Claim C8. \<^verbatim>\<open>removeFromCart\<close> with an id that no line of the cart carries returns the
  state unchanged; it has no error result; and removing the same id twice is the same
  as removing it once.
\<close>

theorem removeFromCart_absent_idempotent:
  "((\<forall>item\<in>set (cart s). medicine_id item \<noteq> medicineId) \<longrightarrow> removeFromCart medicineId s = s) \<and>
   removeFromCart medicineId (removeFromCart medicineId s) = removeFromCart medicineId s"
proof
  show "(\<forall>item\<in>set (cart s). medicine_id item \<noteq> medicineId) \<longrightarrow> removeFromCart medicineId s = s"
  proof
    assume "\<forall>item\<in>set (cart s). medicine_id item \<noteq> medicineId"
    then have "filter (\<lambda>item. medicine_id item \<noteq> medicineId) (cart s) = cart s"
      by (simp add: filter_id_conv)
    then show "removeFromCart medicineId s = s"
      by (simp add: removeFromCart_def)
  qed
  show "removeFromCart medicineId (removeFromCart medicineId s) = removeFromCart medicineId s"
    by (simp add: removeFromCart_def)
qed

text \<open>Claim C8 on a cart whose only line has id 1: removing id 2 changes nothing.\<close>

theorem removeFromCart_absent_idempotent_witness:
  "map medicine_id (cart one_line) = [1] \<and> removeFromCart 2 one_line = one_line \<and>
   removeFromCart 1 (removeFromCart 1 one_line) = removeFromCart 1 one_line"
  using removeFromCart_absent_idempotent [of one_line 2]
    removeFromCart_absent_idempotent [of one_line 1]
  by (simp add: cart_one_line newItem_def med_a_def)

section \<open>Updating a line\<close>

text \<open>
  Claim C5 says that \<^verbatim>\<open>updateCartItem\<close> clamps: a quantity below 1 deletes the line,
  and a line discount is forced into the interval from 0 to 100. The handler does
  neither. On a cart with one line, a requested quantity of 0 leaves the line in the
  cart with quantity 0 and total 0, where \<^verbatim>\<open>removeFromCart\<close> would have emptied the
  cart, and a requested discount of 150 percent is stored as 150, with total -50.
\<close>

theorem updateCartItem_clamp_counterexample:
  "cart (updateCartItem 1 (no_updates\<lparr> u_quantity := Some 0 \<rparr>) one_line) =
     [\<lparr> medicine_id = 1, quantity = 0, discount_percent = 0, medicine = med_a,
        unit_price = 100, total_price = 0 \<rparr>] \<and>
   cart (removeFromCart 1 one_line) = [] \<and>
   cart (updateCartItem 1 (no_updates\<lparr> u_discount_percent := Some 150 \<rparr>) one_line) =
     [\<lparr> medicine_id = 1, quantity = 1, discount_percent = 150, medicine = med_a,
        unit_price = 100, total_price = - 50 \<rparr>]"
  by (simp add: one_line_def cart_eval)

text \<open>
  Claim C5 as the code has it. \<^verbatim>\<open>updateCartItem\<close> removes no line: the cart keeps
  its length, also when the requested quantity is below 1. On every line it matches it
  stores the quantity and the discount percentage of the update as they are given,
  clamping neither. The minus button of the cart asks for the maximum of 1 and the
  quantity less one, so after a click on it the quantity of the line is that maximum,
  which is at least 1.
\<close>

theorem updateCartItem_stores_as_given:
  "length (cart (updateCartItem medicineId updates s)) = length (cart s) \<and>
   (\<forall>k<length (cart s). medicine_id (cart s ! k) = medicineId \<longrightarrow>
      quantity (cart (updateCartItem medicineId updates s) ! k) =
        (case u_quantity updates of None \<Rightarrow> quantity (cart s ! k) | Some q \<Rightarrow> q) \<and>
      discount_percent (cart (updateCartItem medicineId updates s) ! k) =
        (case u_discount_percent updates of
           None \<Rightarrow> discount_percent (cart s ! k) | Some d \<Rightarrow> d)) \<and>
   (\<forall>line\<in>set (cart (minus_onClick item s)). medicine_id line = medicine_id item \<longrightarrow>
      quantity line = max 1 (quantity item - 1) \<and> 1 \<le> quantity line)"
proof (intro conjI)
  show "length (cart (updateCartItem medicineId updates s)) = length (cart s)"
    by (simp add: cart_updateCartItem)
  show "\<forall>k<length (cart s). medicine_id (cart s ! k) = medicineId \<longrightarrow>
      quantity (cart (updateCartItem medicineId updates s) ! k) =
        (case u_quantity updates of None \<Rightarrow> quantity (cart s ! k) | Some q \<Rightarrow> q) \<and>
      discount_percent (cart (updateCartItem medicineId updates s) ! k) =
        (case u_discount_percent updates of
           None \<Rightarrow> discount_percent (cart s ! k) | Some d \<Rightarrow> d)"
    by (simp add: cart_updateCartItem update_line_def spread_def Let_def)
  show "\<forall>line\<in>set (cart (minus_onClick item s)). medicine_id line = medicine_id item \<longrightarrow>
      quantity line = max 1 (quantity item - 1) \<and> 1 \<le> quantity line"
    by (auto simp: minus_onClick_def cart_updateCartItem update_line_def spread_def
          no_updates_def Let_def split: if_splits)
qed

text \<open>
  Claim C5 as the code has it, on the cart with one line of quantity 1: a requested
  quantity of -4 is stored, and the minus button leaves the quantity at 1.
\<close>

theorem updateCartItem_stores_as_given_witness:
  "length (cart (updateCartItem 1 (no_updates\<lparr> u_quantity := Some (- 4) \<rparr>) one_line)) = 1 \<and>
   quantity (cart (updateCartItem 1 (no_updates\<lparr> u_quantity := Some (- 4) \<rparr>) one_line) ! 0)
     = - 4 \<and>
   map quantity (cart (minus_onClick (newItem med_a) one_line)) = [1]"
  using updateCartItem_stores_as_given
    [of 1 "no_updates\<lparr> u_quantity := Some (- 4) \<rparr>" one_line "newItem med_a"]
  by (simp add: cart_one_line minus_onClick_def updateCartItem_def update_line_def spread_def
        no_updates_def newItem_def med_a_def Let_def)

section \<open>One line per medicine\<close>




section \<open>What an update leaves alone\<close>

text \<open>
  Claim C10 says that an update which supplies neither a quantity nor a discount
  percentage leaves \<^verbatim>\<open>total_price\<close> as it was. \<^verbatim>\<open>total_price\<close> is itself a field of
  \<^verbatim>\<open>Partial<CartItem>\<close>: an update with \<^verbatim>\<open>{ total_price: 99 }\<close> and nothing else turns
  the total of the line from 100 into 99.
\<close>

theorem updateCartItem_frame_counterexample:
  "map total_price (cart one_line) = [100] \<and>
   u_quantity (no_updates\<lparr> u_total_price := Some 99 \<rparr>) = None \<and>
   u_discount_percent (no_updates\<lparr> u_total_price := Some 99 \<rparr>) = None \<and>
   map total_price (cart (updateCartItem 1 (no_updates\<lparr> u_total_price := Some 99 \<rparr>) one_line))
     = [99]"
  by (simp add: one_line_def cart_eval)

text \<open>
  Claim C10 as the code has it. \<^verbatim>\<open>updateCartItem\<close> changes no state cell but the cart,
  keeps the number and the order of the lines, and leaves every line with another
  \<^verbatim>\<open>medicine_id\<close> as it was. On a matched line \<^verbatim>\<open>total_price\<close> is recomputed from the
  updated quantity, unit price and discount percentage exactly when the update supplies
  a quantity or a discount percentage; otherwise it is the \<^verbatim>\<open>total_price\<close> of the update
  when it supplies one, and the old \<^verbatim>\<open>total_price\<close> when it does not.
\<close>

theorem updateCartItem_frame:
  "updateCartItem medicineId updates s =
     s\<lparr> cart := cart (updateCartItem medicineId updates s) \<rparr> \<and>
   length (cart (updateCartItem medicineId updates s)) = length (cart s) \<and>
   (\<forall>k<length (cart s).
      (medicine_id (cart s ! k) \<noteq> medicineId \<longrightarrow>
         cart (updateCartItem medicineId updates s) ! k = cart s ! k) \<and>
      (medicine_id (cart s ! k) = medicineId \<longrightarrow>
         total_price (cart (updateCartItem medicineId updates s) ! k) =
           (if u_quantity updates \<noteq> None \<or> u_discount_percent updates \<noteq> None
            then quantity (cart (updateCartItem medicineId updates s) ! k)
                   * unit_price (cart (updateCartItem medicineId updates s) ! k)
                   * (1 - discount_percent (cart (updateCartItem medicineId updates s) ! k) / 100)
            else (case u_total_price updates of
                    None \<Rightarrow> total_price (cart s ! k) | Some t \<Rightarrow> t))))"
proof (intro conjI)
  show "updateCartItem medicineId updates s =
      s\<lparr> cart := cart (updateCartItem medicineId updates s) \<rparr>"
    by (simp add: updateCartItem_def)
  show "length (cart (updateCartItem medicineId updates s)) = length (cart s)"
    by (simp add: cart_updateCartItem)
  show "\<forall>k<length (cart s).
      (medicine_id (cart s ! k) \<noteq> medicineId \<longrightarrow>
         cart (updateCartItem medicineId updates s) ! k = cart s ! k) \<and>
      (medicine_id (cart s ! k) = medicineId \<longrightarrow>
         total_price (cart (updateCartItem medicineId updates s) ! k) =
           (if u_quantity updates \<noteq> None \<or> u_discount_percent updates \<noteq> None
            then quantity (cart (updateCartItem medicineId updates s) ! k)
                   * unit_price (cart (updateCartItem medicineId updates s) ! k)
                   * (1 - discount_percent (cart (updateCartItem medicineId updates s) ! k) / 100)
            else (case u_total_price updates of
                    None \<Rightarrow> total_price (cart s ! k) | Some t \<Rightarrow> t)))"
    by (simp add: cart_updateCartItem update_line_def spread_def Let_def)
qed

text \<open>
  Claim C10 as the code has it, on a cart with the lines of medicines 1 and 2: a
  discount of 10 percent on line 2 leaves line 1 as it was and sets the total of line 2
  to 45; an update of line 2 that supplies only a unit price keeps its total of 50.
\<close>

theorem updateCartItem_frame_witness:
  "cart (updateCartItem 2 (no_updates\<lparr> u_discount_percent := Some 10 \<rparr>) two_lines) ! 0 =
     cart two_lines ! 0 \<and>
   map total_price (cart (updateCartItem 2 (no_updates\<lparr> u_discount_percent := Some 10 \<rparr>) two_lines))
     = [100, 45] \<and>
   map total_price (cart (updateCartItem 2 (no_updates\<lparr> u_unit_price := Some 60 \<rparr>) two_lines))
     = [100, 50]"
  using updateCartItem_frame [of 2 "no_updates\<lparr> u_discount_percent := Some 10 \<rparr>" two_lines]
    updateCartItem_frame [of 2 "no_updates\<lparr> u_unit_price := Some 60 \<rparr>" two_lines]
  by (simp add: cart_two_lines updateCartItem_def update_line_def spread_def no_updates_def
        newItem_def med_a_def med_b_def Let_def)

section \<open>Submitting a sale\<close>

lemma processing_apply_op: "processing (apply_op op s) = processing s"
  by (cases op)
     (simp_all add: addToCart_def updateCartItem_def removeFromCart_def clearCart_def
        discount_onChange_def Let_def split: option.split)

lemma one_flight_step:
  assumes "one_flight \<sigma>" and "step parseInt e \<sigma> = Some \<sigma>'"
  shows "one_flight \<sigma>'"
proof (cases e)
  case Click_complete_sale
  then show ?thesis
    using assms
    by (auto simp: one_flight_def complete_sale_disabled_def processSale_call_def
          split: if_splits)
next
  case (Sale_settles r)
  then show ?thesis
    using assms
    by (cases r)
       (auto simp: one_flight_def processSale_settle_def split: list.splits if_splits)
next
  case (Cart_event op)
  then show ?thesis
    using assms by (auto simp: one_flight_def processing_apply_op)
next
  case Timer_fires
  then show ?thesis
    using assms by (auto simp: one_flight_def clearCart_def split: if_splits)
qed

lemma one_flight_run_events:
  "one_flight \<sigma> \<Longrightarrow> run_events parseInt evs \<sigma> = Some \<sigma>' \<Longrightarrow> one_flight \<sigma>'"
proof (induction evs arbitrary: \<sigma>)
  case Nil
  then show ?case by simp
next
  case (Cons e evs)
  then show ?case
    by (auto split: option.splits dest: one_flight_step)
qed

lemma run_add_and_click:
  "run_events parseInt_unused add_and_click Session_initial =
     Some \<lparr> ui = busy_cart, in_flight = [saleData parseInt_unused one_line], timers = 0 \<rparr>"
  by (simp add: add_and_click_def Session_initial_def complete_sale_disabled_def
        processSale_call_def busy_cart_def one_line_def cart_eval)

text \<open>
  Claim C7 says that a second submission made while one is in flight is rejected by the
  submitting function itself, with the message "submission already in progress".
  \<^verbatim>\<open>processSale\<close> does not read the flag \<^verbatim>\<open>processing\<close> and has no such message: called
  on a cart with one line while \<^verbatim>\<open>processing\<close> is set, it raises no alert and posts the
  sale again.
\<close>

theorem processSale_second_call_counterexample:
  "processing busy_cart \<and>
   snd (processSale_call parseInt_unused busy_cart) =
     [Post_process_sale (saleData parseInt_unused busy_cart)] \<and>
   filter is_alert (snd (processSale_call parseInt_unused busy_cart)) = []"
  by (simp add: processSale_call_def busy_cart_def cart_one_line)

text \<open>
  Claim C7 as the code has it. The guard is the button: \<^verbatim>\<open>Complete Sale\<close> is disabled
  while \<^verbatim>\<open>processing\<close> is set, so it delivers no click then. In every session of the
  page (clicks on the button, settled requests, cart operations, the timer that clears
  the cart) at most one sale request is unsettled, and one is unsettled exactly while
  \<^verbatim>\<open>processing\<close> is set. When the request fails, the alert shows the detail sent by the
  server (a fixed text when there is none), and the state is left as it was but for
  \<^verbatim>\<open>processing\<close>, which is reset.
\<close>

theorem processSale_single_flight:
  "(run_events parseInt evs Session_initial = Some \<sigma> \<longrightarrow>
      length (in_flight \<sigma>) \<le> 1 \<and> (in_flight \<sigma> \<noteq> [] \<longleftrightarrow> processing (ui \<sigma>))) \<and>
   (processing s \<longrightarrow>
      step parseInt Click_complete_sale \<lparr> ui = s, in_flight = fl, timers = n \<rparr> = None) \<and>
   processSale_settle (Rejected detail) s =
     (s\<lparr> processing := False \<rparr>, [Alert (detail_or detail ''Sale processing failed'')]) \<and>
   (d \<noteq> [] \<longrightarrow> detail_or (Some d) ''Sale processing failed'' = d)"
proof (intro conjI impI)
  assume run: "run_events parseInt evs Session_initial = Some \<sigma>"
  have "one_flight Session_initial"
    by (simp add: one_flight_def Session_initial_def POS_initial_def)
  then have inv: "one_flight \<sigma>"
    using run by (rule one_flight_run_events)
  show "length (in_flight \<sigma>) \<le> 1"
    using inv by (simp add: one_flight_def split: if_splits)
  show "in_flight \<sigma> \<noteq> [] \<longleftrightarrow> processing (ui \<sigma>)"
    using inv by (auto simp: one_flight_def split: if_splits)
next
  assume "processing s"
  then show "step parseInt Click_complete_sale \<lparr> ui = s, in_flight = fl, timers = n \<rparr> = None"
    by (simp add: complete_sale_disabled_def)
next
  show "processSale_settle (Rejected detail) s =
     (s\<lparr> processing := False \<rparr>, [Alert (detail_or detail ''Sale processing failed'')])"
    by (simp add: processSale_settle_def)
next
  assume "d \<noteq> []"
  then show "detail_or (Some d) ''Sale processing failed'' = d"
    by (simp add: detail_or_def)
qed

text \<open>
  Claim C7 as the code has it, in the session that adds a medicine and clicks the
  button: one request is in flight, a second click is not delivered, and a failure
  with the detail "Insufficient stock" alerts that text and keeps the cart.
\<close>

theorem processSale_single_flight_witness:
  "run_events parseInt_unused add_and_click Session_initial =
     Some \<lparr> ui = busy_cart, in_flight = [saleData parseInt_unused one_line], timers = 0 \<rparr> \<and>
   length (in_flight \<lparr> ui = busy_cart, in_flight = [saleData parseInt_unused one_line],
                      timers = 0 \<rparr>) \<le> 1 \<and>
   step parseInt_unused Click_complete_sale
     \<lparr> ui = busy_cart, in_flight = [saleData parseInt_unused one_line], timers = 0 \<rparr> = None \<and>
   processSale_settle (Rejected (Some ''Insufficient stock'')) busy_cart =
     (one_line, [Alert ''Insufficient stock''])"
proof -
  have busy: "processing busy_cart"
    by (simp add: busy_cart_def)
  have idle: "busy_cart\<lparr> processing := False \<rparr> = one_line"
    by (simp add: busy_cart_def one_line_def cart_eval)
  show ?thesis
    using run_add_and_click busy idle
      processSale_single_flight [where parseInt = parseInt_unused and evs = add_and_click
        and \<sigma> = "\<lparr> ui = busy_cart, in_flight = [saleData parseInt_unused one_line],
                     timers = 0 \<rparr>"
        and s = busy_cart and fl = "[saleData parseInt_unused one_line]" and n = 0
        and detail = "Some ''Insufficient stock''" and d = "''Insufficient stock''"]
    by simp
qed

section \<open>Receiving a purchase order\<close>

lemma receive_dialog_selected: "selectedPurchase (receive_dialog q1 q2) = Some order_7"
  by (simp add: receive_dialog_def received_onChange_def prepareReceivePurchase_def)


lemma receive_dialog_filters:
  "statusFilter (receive_dialog q1 q2) = None \<and> supplierFilter (receive_dialog q1 q2) = None"
  by (simp add: receive_dialog_def received_onChange_def prepareReceivePurchase_def
        purchases_page_def)

lemma receive_dialog_quantities:
  "receiveQuantities (receive_dialog q1 q2) 1 = Some q1 \<and>
   receiveQuantities (receive_dialog q1 q2) 2 = Some q2"
  by (simp add: receive_dialog_def received_onChange_def prepareReceivePurchase_def
        order_items_def)




text \<open>
  Claim C4. The receive action is to check every received quantity against 0 and the
  ordered quantity before it submits, to report a violation as a local validation
  error, and to send nothing then. The page declares these bounds on the quantity
  field, but neither the change handler of the field nor \<^verbatim>\<open>handleReceivePurchase\<close>
  checks them. For the order of 10 and 5 units with 11 and -1 typed into the dialog,
  the map is outside the declared bounds, and still the request is sent with these
  quantities, the list is fetched again and the only alert is the success message.
\<close>

theorem handleReceivePurchase_out_of_bounds:
  "selectedPurchase (receive_dialog 11 (- 1)) = Some order_7 \<and>
   map received_max (items order_7) = [10, 5] \<and> received_min = 0 \<and>
   receiveQuantities (receive_dialog 11 (- 1)) 1 = Some 11 \<and>
   receiveQuantities (receive_dialog 11 (- 1)) 2 = Some (- 1) \<and>
   \<not> within_declared_bounds order_7 (receiveQuantities (receive_dialog 11 (- 1))) \<and>
   within_declared_bounds order_7 (receiveQuantities (receive_dialog 10 3)) \<and>
   snd (handleReceivePurchase (Resolved ()) (receive_dialog 11 (- 1))) =
     [Put_receive 7 (receiveQuantities (receive_dialog 11 (- 1))), Get_purchases None None,
      Alert ''Purchase order received successfully!'']"
  by (simp add: handleReceivePurchase_def fetchPurchases_call_def receive_dialog_selected
        receive_dialog_filters receive_dialog_quantities within_declared_bounds_def
        received_min_def received_max_def order_7_def order_items_def)

section \<open>Changing the status of a purchase order\<close>

text \<open>
  Claim C3 says that \<^verbatim>\<open>handleUpdateStatus\<close> checks the transition and fails with
  InvalidTransition before any request. The handler receives the id of the order and
  the target status only, never looks at the current status, and has no such error:
  for the order whose status is \<^verbatim>\<open>received\<close>, a confirmed change to \<^verbatim>\<open>pending\<close> sends
  the status request.
\<close>

theorem handleUpdateStatus_jump_counterexample:
  "purchases purchases_page ! 1 = order_8 \<and> status order_8 = Received \<and>
   snd (handleUpdateStatus True (Resolved ()) (purchase_id order_8) Pending purchases_page) =
     [Confirm ''Are you sure you want to mark this order as pending?'', Put_status 8 Pending,
      Get_purchases None None, Alert ''Purchase status updated successfully!'']"
  by (simp add: handleUpdateStatus_def fetchPurchases_call_def confirm_message_def
        purchases_page_def order_8_def)

text \<open>
  Claim C3 as the code has it. \<^verbatim>\<open>handleUpdateStatus\<close> makes no check of its own: once
  the user has confirmed, it sends the status request for any order and any target
  status, and without the confirmation it does nothing but ask. Cancellation is
  restricted by what the page renders: the cancel button of a table row is there
  exactly when the order is \<^verbatim>\<open>pending\<close> or \<^verbatim>\<open>ordered\<close>, and that of the detail dialog
  exactly when it is \<^verbatim>\<open>pending\<close>.
\<close>

theorem handleUpdateStatus_unchecked:
  "(confirmed \<longrightarrow>
      Put_status purchaseId new_status
        \<in> set (snd (handleUpdateStatus confirmed r purchaseId new_status s))) \<and>
   (\<not> confirmed \<longrightarrow>
      handleUpdateStatus confirmed r purchaseId new_status s =
        (s, [Confirm (confirm_message new_status)])) \<and>
   (Cancel_order \<in> set (row_actions purchase) \<longleftrightarrow>
      status purchase = Pending \<or> status purchase = Ordered) \<and>
   (Cancel_order \<in> set (detail_actions purchase) \<longleftrightarrow> status purchase = Pending)"
  by (cases r)
     (simp_all add: handleUpdateStatus_def fetchPurchases_call_def row_actions_def
        detail_actions_def)

text \<open>
  Claim C3 as the code has it, for the cancellation of order 7, which is \<^verbatim>\<open>ordered\<close>:
  confirmed, the request is sent; declined, only the question was asked; the row of
  order 7 has the cancel button, its detail dialog and the row of the received order 8
  have none.
\<close>

theorem handleUpdateStatus_unchecked_witness:
  "Put_status 7 Cancelled
     \<in> set (snd (handleUpdateStatus True (Rejected None) 7 Cancelled purchases_page)) \<and>
   handleUpdateStatus False (Rejected None) 7 Cancelled purchases_page =
     (purchases_page, [Confirm ''Are you sure you want to mark this order as cancelled?'']) \<and>
   Cancel_order \<in> set (row_actions order_7) \<and>
   Cancel_order \<notin> set (detail_actions order_7) \<and>
   Cancel_order \<notin> set (row_actions order_8)"
  using handleUpdateStatus_unchecked [where confirmed = True and r = "Rejected None"
      and purchaseId = 7 and new_status = Cancelled and s = purchases_page and purchase = order_7]
    handleUpdateStatus_unchecked [where confirmed = False and r = "Rejected None"
      and purchaseId = 7 and new_status = Cancelled and s = purchases_page and purchase = order_8]
  by (simp add: confirm_message_def order_7_def order_8_def)

end
